theory Spec2Isabelle
  imports Complex_Main
begin

text \<open>
  A model of \<^verbatim>\<open>src/MixClient.js\<close>: the constructor, \<^verbatim>\<open>getBlockchainName\<close>,
  \<^verbatim>\<open>doSearch\<close>, \<^verbatim>\<open>getSystemStats\<close> and \<^verbatim>\<open>updateBlocks\<close>. The three libraries the
  client is built on (\<^verbatim>\<open>MixConnector.js\<close>, \<^verbatim>\<open>MixSearch.js\<close>, \<^verbatim>\<open>MixSystemStats.js\<close>)
  are not among the sources. What their asynchronous calls return is a parameter of the
  model; what the statistics library computes from a window of blocks is modelled from
  the spec, and marked so where it is defined.
\<close>

section \<open>Promises\<close>

text \<open>
  A rejection reason is a JavaScript \<^verbatim>\<open>Error\<close> object; the model keeps its
  \<^verbatim>\<open>message\<close>.
\<close>

datatype error = Error string

fun message :: "error \<Rightarrow> string" where
  "message (Error m) = m"

text \<open>
  The final state of a promise. A promise that never settles stays \<open>Pending\<close>.
  \<open>Rejected t e\<close> carries the instant \<open>t\<close> at which the promise was rejected; the
  instant is only used to decide which of several rejections comes first.
\<close>

datatype 'a promise = Pending | Fulfilled 'a | Rejected nat error

fun rejection :: "'a promise \<Rightarrow> (nat \<times> error) option" where
  "rejection (Rejected t e) = Some (t, e)"
| "rejection _ = None"

text \<open>
  The earliest rejection of a list of promises, in the order of the list. Of two
  rejections at the same instant the one with the smaller index comes first: its reaction
  was registered first.
\<close>

fun earliest :: "(nat \<times> error) option list \<Rightarrow> (nat \<times> error) option" where
  "earliest [] = None"
| "earliest (None # rs) = earliest rs"
| "earliest (Some (t, e) # rs) =
     (case earliest rs of
        None \<Rightarrow> Some (t, e)
      | Some (t', e') \<Rightarrow> if t \<le> t' then Some (t, e) else Some (t', e'))"

text \<open>
  \<^verbatim>\<open>Promise.all\<close> on two and on three promises: rejected with the earliest
  rejection as soon as one input is rejected, fulfilled with all the values when every
  input is fulfilled, pending otherwise.
\<close>

definition Promise_all2 :: "'a promise \<Rightarrow> 'b promise \<Rightarrow> ('a \<times> 'b) promise" where
  "Promise_all2 p q =
     (case earliest [rejection p, rejection q] of
        Some (t, e) \<Rightarrow> Rejected t e
      | None \<Rightarrow>
          (case (p, q) of
             (Fulfilled a, Fulfilled b) \<Rightarrow> Fulfilled (a, b)
           | _ \<Rightarrow> Pending))"

definition Promise_all3 ::
  "'a promise \<Rightarrow> 'b promise \<Rightarrow> 'c promise \<Rightarrow> ('a \<times> 'b \<times> 'c) promise" where
  "Promise_all3 p q r =
     (case earliest [rejection p, rejection q, rejection r] of
        Some (t, e) \<Rightarrow> Rejected t e
      | None \<Rightarrow>
          (case (p, q, r) of
             (Fulfilled a, Fulfilled b, Fulfilled c) \<Rightarrow> Fulfilled (a, b, c)
           | _ \<Rightarrow> Pending))"

section \<open>Blocks and the search library\<close>

text \<open>
  A block as the node returns it. \<^verbatim>\<open>MixClient.js\<close> reads \<^verbatim>\<open>block.hash\<close>; the
  other fields are the ones the statistics are computed from.
\<close>

record eth_block =
  hash :: string
  height :: nat
  timestamp :: int
  blockDifficulty :: int

text \<open>
  What is searched for: \<^verbatim>\<open>doSearch\<close> passes the query on as it is, and
  \<^verbatim>\<open>getBlockchainName\<close> asks for a block by number.
\<close>

datatype query = QNum nat | QStr string

text \<open>
  \<^verbatim>\<open>MixSearch.js\<close> is not part of the sources. Its three lookups are parameters of the
  model: for each query, the promise the lookup returns. A fulfilled \<open>None\<close> is the
  \<^verbatim>\<open>null\<close> of a lookup that found nothing.
\<close>

record 't MixSearch =
  getBlock :: "query \<Rightarrow> eth_block option promise"
  getBalance :: "query \<Rightarrow> int option promise"
  getTransaction :: "query \<Rightarrow> 't option promise"

record 't searchResult =
  block :: "eth_block option"
  account :: "int option"
  transaction :: "'t option"

text \<open>
  \<^verbatim>\<open>doSearch(query)\<close>: the three lookups are started, \<^verbatim>\<open>Promise.all\<close> joins them,
  its values go into the three slots, and its rejection is passed to \<^verbatim>\<open>reject\<close>.
\<close>

definition doSearch :: "'t MixSearch \<Rightarrow> query \<Rightarrow> 't searchResult promise" where
  "doSearch ms q =
     (case Promise_all3 (getBlock ms q) (getBalance ms q) (getTransaction ms q) of
        Fulfilled (r0, r1, r2) \<Rightarrow>
          Fulfilled \<lparr>block = r0, account = r1, transaction = r2\<rparr>
      | Rejected t e \<Rightarrow> Rejected t e
      | Pending \<Rightarrow> Pending)"

text \<open>The passthrough \<^verbatim>\<open>getBlock(hashOrNumber)\<close> of the client.\<close>

definition client_getBlock :: "'t MixSearch \<Rightarrow> query \<Rightarrow> eth_block option promise" where
  "client_getBlock ms hashOrNumber = getBlock ms hashOrNumber"

section \<open>Chain identification\<close>

definition IDENTIFYING_BLOCK :: nat where
  "IDENTIFYING_BLOCK = 1920001"

definition blockchainHashes :: "(string \<times> string) list" where
  "blockchainHashes =
     [(''0x4fa57903dad05875ddf78030c16b5da886f7d81714cf66946a4c02566dbb2af5'', ''Mix''),
      (''0x87b2bc3f12e3ded808c6d4b9b528381fa2a7e95ff2368ba93191a9495daa7f50'', ''Ethereum''),
      (''0xab7668dfd3bedcf9da505d69306e8fd12ad78116429cf8880a9942c6f0605b60'',
       ''Ethereum Classic'')]"

text \<open>
  \<^verbatim>\<open>blockchainHashes\<close> is an object literal, so \<^verbatim>\<open>blockchainHashes[key]\<close> finds
  the members of \<^verbatim>\<open>Object.prototype\<close> as well as the three entries. A value read
  from it is an entry's name or such an inherited member.
\<close>

definition Object_prototype_keys :: "string list" where
  "Object_prototype_keys =
     [''constructor'', ''hasOwnProperty'', ''isPrototypeOf'', ''propertyIsEnumerable'',
      ''toLocaleString'', ''toString'', ''valueOf'', ''__proto__'',
      ''__defineGetter__'', ''__defineSetter__'', ''__lookupGetter__'',
      ''__lookupSetter__'']"

datatype resolved = Name string | Inherited string

text \<open>Reading a property of an object literal; \<open>None\<close> is \<^verbatim>\<open>undefined\<close>.\<close>

definition property :: "(string \<times> string) list \<Rightarrow> string \<Rightarrow> resolved option" where
  "property obj key =
     (case map_of obj key of
        Some v \<Rightarrow> Some (Name v)
      | None \<Rightarrow> if key \<in> set Object_prototype_keys then Some (Inherited key) else None)"

text \<open>
  \<^verbatim>\<open>getBlockchainName()\<close>. The promise it returns is settled by \<^verbatim>\<open>resolve\<close> only:
  \<^verbatim>\<open>reject\<close> is never called, and the \<^verbatim>\<open>then\<close> on \<^verbatim>\<open>getBlock\<close> has no
  rejection handler. So the promise stays pending when \<^verbatim>\<open>getBlock\<close> is rejected, and
  when it is fulfilled with \<^verbatim>\<open>null\<close>: reading \<^verbatim>\<open>block.hash\<close> throws inside the
  callback, before \<^verbatim>\<open>resolve\<close>.
\<close>

definition getBlockchainName :: "'t MixSearch \<Rightarrow> resolved promise" where
  "getBlockchainName ms =
     (case client_getBlock ms (QNum IDENTIFYING_BLOCK) of
        Fulfilled (Some b) \<Rightarrow>
          (case property blockchainHashes (hash b) of
             None \<Rightarrow> Fulfilled (Name ''Unknown blockchain'')
           | Some v \<Rightarrow> Fulfilled v)
      | Fulfilled None \<Rightarrow> Pending
      | Rejected t e \<Rightarrow> Pending
      | Pending \<Rightarrow> Pending)"

section \<open>System statistics\<close>

subsection \<open>The statistics library\<close>

text \<open>
  A JavaScript number as a metric can come out: a finite value, or the \<^verbatim>\<open>NaN\<close> and
  \<^verbatim>\<open>Infinity\<close> that a division by zero gives.
\<close>

datatype js_number = Finite rat | NaN | Infinity

definition js_div :: "rat \<Rightarrow> rat \<Rightarrow> js_number" where
  "js_div a b = (if b = 0 then (if a = 0 then NaN else Infinity) else Finite (a / b))"

text \<open>
  \<^verbatim>\<open>MixSystemStats.js\<close> is not part of the sources. Its four fetches are parameters of
  the model: the promise each one returns when it is called.
\<close>

record 'st node =
  getState :: "'st promise"
  getPeerCount :: "int promise"
  getGasPrice :: "int promise"
  getLatestBlocks :: "eth_block list promise"

text \<open>
  Modelled from the spec: the state of the \<^verbatim>\<open>MixSystemStats\<close> object, which is
  missing from the sources. It holds one block window, replaced wholesale whenever a new
  window is supplied or fetched.
\<close>

record MixSystemStats =
  window :: "eth_block list"

text \<open>
  Modelled from the spec: \<^verbatim>\<open>setLatestBlocks\<close>, missing from the sources. It replaces
  the held window wholesale.
\<close>

definition setLatestBlocks :: "MixSystemStats \<Rightarrow> eth_block list \<Rightarrow> MixSystemStats" where
  "setLatestBlocks s w = s\<lparr>window := w\<rparr>"

text \<open>
  Modelled from the spec: what a fulfilled \<^verbatim>\<open>getLatestBlocks\<close>, missing from the
  sources, does to the object: the fetched window replaces the held one.
\<close>

definition fetched :: "MixSystemStats \<Rightarrow> eth_block list promise \<Rightarrow> MixSystemStats" where
  "fetched s p = (case p of Fulfilled w \<Rightarrow> s\<lparr>window := w\<rparr> | _ \<Rightarrow> s)"

text \<open>
  Modelled from the spec: the average difficulty of a window, the arithmetic mean of the
  difficulties of its blocks. The spec does not say what the mean of no block is; the
  model divides as JavaScript does.
\<close>

definition averageDifficulty :: "eth_block list \<Rightarrow> js_number" where
  "averageDifficulty w =
     js_div (of_int (sum_list (map blockDifficulty w))) (of_nat (length w))"

text \<open>
  Modelled from the spec: the block times of a window, the timestamp of each block minus
  that of the block before it; one fewer than the blocks. The window is taken oldest
  first, so that the block before is the predecessor and the last block is the most
  recent one.
\<close>

fun blockTimesOf :: "eth_block list \<Rightarrow> int list" where
  "blockTimesOf (a # b # bs) = (timestamp b - timestamp a) # blockTimesOf (b # bs)"
| "blockTimesOf _ = []"

text \<open>
  Modelled from the spec: the hash rate of a window, the most recent difficulty divided
  by the most recent block time, and zero when the window has fewer than two blocks or
  that block time is zero.
\<close>

definition hashRateOf :: "eth_block list \<Rightarrow> js_number" where
  "hashRateOf w =
     (if length w < 2 then Finite 0
      else if last (blockTimesOf w) = 0 then Finite 0
      else js_div (of_int (blockDifficulty (last w))) (of_int (last (blockTimesOf w))))"

text \<open>
  Modelled from the spec: the method \<^verbatim>\<open>getAverageDifficulty(latestBlocks)\<close>, missing
  from the sources. It returns the average difficulty of the window it is handed; being
  handed a window, the object holds that window from then on.
\<close>

definition getAverageDifficulty ::
  "MixSystemStats \<Rightarrow> eth_block list \<Rightarrow> js_number \<times> MixSystemStats" where
  "getAverageDifficulty s w = (averageDifficulty w, s\<lparr>window := w\<rparr>)"

text \<open>
  Modelled from the spec: the method \<^verbatim>\<open>getBlockTimes(latestBlocks)\<close>, missing from the
  sources. It returns the block times of the window it is handed; being handed a window,
  the object holds that window from then on.
\<close>

definition getBlockTimes ::
  "MixSystemStats \<Rightarrow> eth_block list \<Rightarrow> int list \<times> MixSystemStats" where
  "getBlockTimes s w = (blockTimesOf w, s\<lparr>window := w\<rparr>)"

text \<open>
  Modelled from the spec: the method \<^verbatim>\<open>getHashRate()\<close>, missing from the sources. The
  client calls it with no argument, so it computes the hash rate of the window the
  object holds.
\<close>

definition getHashRate :: "MixSystemStats \<Rightarrow> js_number" where
  "getHashRate s = hashRateOf (window s)"

subsection \<open>The client's methods\<close>

record 'st systemStats =
  state :: 'st
  peerCount :: int
  gasPrice :: int
  latestBlocks :: "eth_block list"
  difficulty :: js_number
  blockTimes :: "int list"
  hashRate :: js_number

datatype call = GetState | GetPeerCount | GetGasPrice | GetLatestBlocks

text \<open>
  One run of \<^verbatim>\<open>getSystemStats\<close>: the promise it returns, the statistics object after
  it, the fetches it issued in order, and what it wrote with \<^verbatim>\<open>console.error\<close>.
\<close>

record 'st run =
  result :: "'st systemStats promise"
  aggregator :: MixSystemStats
  issued :: "call list"
  console :: "string list"

text \<open>
  The callback of the inner \<^verbatim>\<open>Promise.all\<close>: it fills \<^verbatim>\<open>stats\<close> from the fetched
  values and the three metrics, in the order of the source.
\<close>

definition fill ::
  "'st \<Rightarrow> int \<Rightarrow> int \<Rightarrow> eth_block list \<Rightarrow> MixSystemStats \<Rightarrow>
     'st systemStats \<times> MixSystemStats" where
  "fill st pc gp w s =
     (let (d, s1) = getAverageDifficulty s w;
          (bt, s2) = getBlockTimes s1 w;
          hr = getHashRate s2
      in (\<lparr>state = st, peerCount = pc, gasPrice = gp, latestBlocks = w,
           difficulty = d, blockTimes = bt, hashRate = hr\<rparr>, s2))"

text \<open>
  \<^verbatim>\<open>getSystemStats(latestBlocks)\<close>, with \<open>None\<close> for the default \<^verbatim>\<open>null\<close>. The
  \<^verbatim>\<open>then\<close> on \<^verbatim>\<open>getState\<close> has no rejection handler, so nothing settles the returned
  promise unless \<^verbatim>\<open>getState\<close> is fulfilled; the state it is fulfilled with is stored
  and not looked at. The window is fetched only when none was supplied.
\<close>

definition getSystemStats ::
  "'st node \<Rightarrow> MixSystemStats \<Rightarrow> eth_block list option \<Rightarrow> 'st run" where
  "getSystemStats nd s latest =
     (case getState nd of
        Fulfilled st \<Rightarrow>
          (case latest of
             Some w \<Rightarrow>
               (case Promise_all2 (getPeerCount nd) (getGasPrice nd) of
                  Fulfilled (pc, gp) \<Rightarrow>
                    (let (stats, s') = fill st pc gp w s
                     in \<lparr>result = Fulfilled stats, aggregator = s',
                         issued = [GetState, GetPeerCount, GetGasPrice], console = []\<rparr>)
                | Rejected t e \<Rightarrow>
                    \<lparr>result = Rejected t e, aggregator = s,
                     issued = [GetState, GetPeerCount, GetGasPrice],
                     console = [message e]\<rparr>
                | Pending \<Rightarrow>
                    \<lparr>result = Pending, aggregator = s,
                     issued = [GetState, GetPeerCount, GetGasPrice], console = []\<rparr>)
           | None \<Rightarrow>
               (case Promise_all3 (getPeerCount nd) (getGasPrice nd) (getLatestBlocks nd) of
                  Fulfilled (pc, gp, w) \<Rightarrow>
                    (let (stats, s') = fill st pc gp w (fetched s (getLatestBlocks nd))
                     in \<lparr>result = Fulfilled stats, aggregator = s',
                         issued = [GetState, GetPeerCount, GetGasPrice, GetLatestBlocks],
                         console = []\<rparr>)
                | Rejected t e \<Rightarrow>
                    \<lparr>result = Rejected t e, aggregator = fetched s (getLatestBlocks nd),
                     issued = [GetState, GetPeerCount, GetGasPrice, GetLatestBlocks],
                     console = [message e]\<rparr>
                | Pending \<Rightarrow>
                    \<lparr>result = Pending, aggregator = fetched s (getLatestBlocks nd),
                     issued = [GetState, GetPeerCount, GetGasPrice, GetLatestBlocks],
                     console = []\<rparr>))
      | _ \<Rightarrow> \<lparr>result = Pending, aggregator = s, issued = [GetState], console = []\<rparr>)"

text \<open>\<^verbatim>\<open>updateBlocks(latestBlocks)\<close>, called with a list of blocks.\<close>

definition updateBlocks :: "'st node \<Rightarrow> MixSystemStats \<Rightarrow> eth_block list \<Rightarrow> 'st run" where
  "updateBlocks nd s latest = getSystemStats nd (setLatestBlocks s latest) (Some latest)"

section \<open>Construction of the client\<close>

text \<open>
  A web3 object: what identifies it, and what its \<^verbatim>\<open>isConnected()\<close> answers when the
  constructor asks.
\<close>

record web3 =
  endpoint :: string
  isConnected :: bool

text \<open>
  What the constructor finds around it: \<^verbatim>\<open>localStorage\<close> (\<open>None\<close> where it is not
  defined, else its \<^verbatim>\<open>getItem\<close>), the global \<^verbatim>\<open>web3\<close> (\<open>None\<close> where there is
  none), and \<^verbatim>\<open>MixHTTPConnector.connect\<close>, which is not part of the sources and is a
  parameter: it throws (\<open>Inl\<close>), or returns a web3 object or nothing usable.
\<close>

record surroundings =
  localStorage :: "(string \<Rightarrow> string option) option"
  global_web3 :: "web3 option"
  connect :: "string \<Rightarrow> error + web3 option"

datatype consulted = StorageRead | ConnectAttempt string | GlobalRead

record MixClient =
  client_web3 :: web3

text \<open>A string or \<^verbatim>\<open>null\<close> as a condition: \<^verbatim>\<open>null\<close> and the empty string are false.\<close>

definition truthy :: "string option \<Rightarrow> bool" where
  "truthy u = (case u of None \<Rightarrow> False | Some v \<Rightarrow> v \<noteq> [])"

text \<open>
  The last two steps of the constructor: the global web3 is taken when no web3 object has
  been found so far, and the connection test throws unless there is a connected one.
\<close>

definition test_connection ::
  "surroundings \<Rightarrow> web3 option \<Rightarrow> consulted list \<Rightarrow> (error + MixClient) \<times> consulted list" where
  "test_connection sur found evs =
     (let (found', evs') =
            (case found of
               None \<Rightarrow> (global_web3 sur, evs @ [GlobalRead])
             | Some w \<Rightarrow> (Some w, evs))
      in case found' of
           None \<Rightarrow> (Inl (Error ''Not connected to network''), evs')
         | Some w \<Rightarrow>
             if isConnected w then (Inr \<lparr>client_web3 = w\<rparr>, evs')
             else (Inl (Error ''Not connected to network''), evs'))"

text \<open>
  \<^verbatim>\<open>new MixClient(nodeURI, web3Object)\<close>: the client, or the error thrown, together
  with the sources consulted on the way.
\<close>

definition new_MixClient ::
  "surroundings \<Rightarrow> string option \<Rightarrow> web3 option \<Rightarrow> (error + MixClient) \<times> consulted list" where
  "new_MixClient sur nodeURI web3Object =
     (let (nodeURI', evs) =
            (case localStorage sur of
               Some getItem \<Rightarrow>
                 if \<not> truthy nodeURI then (getItem ''mix-node-uri'', [StorageRead])
                 else (nodeURI, [])
             | None \<Rightarrow> (nodeURI, []))
      in case (nodeURI', web3Object) of
           (Some uri, None) \<Rightarrow>
             if truthy nodeURI' then
               (case connect sur uri of
                  Inl e \<Rightarrow> (Inl e, evs @ [ConnectAttempt uri])
                | Inr found \<Rightarrow> test_connection sur found (evs @ [ConnectAttempt uri]))
             else test_connection sur web3Object evs
         | _ \<Rightarrow> test_connection sur web3Object evs)"

section \<open>Example inputs\<close>

text \<open>Search libraries: one whose balance lookup fails, one that finds a block only, one
  that finds nothing, and one behind a broken connection.\<close>

definition found_block :: eth_block where
  "found_block =
     \<lparr>hash = ''0xb10c'', height = 7, timestamp = 1500000000, blockDifficulty = 1000\<rparr>"

definition search_balance_fails :: "string MixSearch" where
  "search_balance_fails =
     \<lparr>getBlock = (\<lambda>q. Fulfilled (Some found_block)),
      getBalance = (\<lambda>q. Rejected 0 (Error ''invalid address'')),
      getTransaction = (\<lambda>q. Fulfilled None)\<rparr>"

definition search_block_only :: "string MixSearch" where
  "search_block_only =
     \<lparr>getBlock = (\<lambda>q. Fulfilled (Some found_block)),
      getBalance = (\<lambda>q. Fulfilled None),
      getTransaction = (\<lambda>q. Fulfilled None)\<rparr>"

definition search_nothing :: "string MixSearch" where
  "search_nothing =
     \<lparr>getBlock = (\<lambda>q. Fulfilled None),
      getBalance = (\<lambda>q. Fulfilled None),
      getTransaction = (\<lambda>q. Fulfilled None)\<rparr>"

definition search_unreachable :: "string MixSearch" where
  "search_unreachable =
     \<lparr>getBlock = (\<lambda>q. Rejected 0 (Error ''CONNECTION ERROR'')),
      getBalance = (\<lambda>q. Rejected 0 (Error ''CONNECTION ERROR'')),
      getTransaction = (\<lambda>q. Rejected 0 (Error ''CONNECTION ERROR''))\<rparr>"

text \<open>Three blocks, the first two with the same timestamp.\<close>

definition block_a :: eth_block where
  "block_a =
     \<lparr>hash = ''0xaa'', height = 100, timestamp = 1500000000, blockDifficulty = 3000\<rparr>"

definition block_b :: eth_block where
  "block_b =
     \<lparr>hash = ''0xbb'', height = 101, timestamp = 1500000000, blockDifficulty = 3100\<rparr>"

definition block_c :: eth_block where
  "block_c =
     \<lparr>hash = ''0xcc'', height = 102, timestamp = 1500000015, blockDifficulty = 3000\<rparr>"

text \<open>Nodes, by what their fetches return.\<close>

definition node_synchronised :: "string node" where
  "node_synchronised =
     \<lparr>getState = Fulfilled ''synchronised'',
      getPeerCount = Fulfilled 8,
      getGasPrice = Fulfilled 20,
      getLatestBlocks = Fulfilled [block_a, block_b, block_c]\<rparr>"

definition node_other :: "string node" where
  "node_other =
     \<lparr>getState = Fulfilled ''synchronising'',
      getPeerCount = Fulfilled 5,
      getGasPrice = Fulfilled 30,
      getLatestBlocks = Fulfilled [block_a, block_b, block_c]\<rparr>"

definition node_same_timestamps :: "string node" where
  "node_same_timestamps =
     \<lparr>getState = Fulfilled ''synchronised'',
      getPeerCount = Fulfilled 8,
      getGasPrice = Fulfilled 20,
      getLatestBlocks = Fulfilled [block_a, block_b]\<rparr>"

definition node_gas_fails :: "string node" where
  "node_gas_fails =
     \<lparr>getState = Fulfilled ''synchronised'',
      getPeerCount = Fulfilled 8,
      getGasPrice = Rejected 2 (Error ''CONNECTION TIMEOUT''),
      getLatestBlocks = Fulfilled []\<rparr>"

definition node_state_rejected :: "string node" where
  "node_state_rejected =
     \<lparr>getState = Rejected 0 (Error ''Not connected''),
      getPeerCount = Fulfilled 8,
      getGasPrice = Fulfilled 20,
      getLatestBlocks = Fulfilled []\<rparr>"

definition node_state_not_connected :: "string node" where
  "node_state_not_connected =
     \<lparr>getState = Fulfilled ''Not connected'',
      getPeerCount = Fulfilled 0,
      getGasPrice = Fulfilled 20,
      getLatestBlocks = Fulfilled []\<rparr>"

text \<open>Statistics objects, by the window they hold.\<close>

definition no_blocks :: MixSystemStats where
  "no_blocks = \<lparr>window = []\<rparr>"

definition holding_a :: MixSystemStats where
  "holding_a = \<lparr>window = [block_a]\<rparr>"

text \<open>The statistics the example runs below return.\<close>

definition stats_supplied :: "string systemStats" where
  "stats_supplied =
     \<lparr>state = ''synchronised'', peerCount = 8, gasPrice = 20,
      latestBlocks = [block_a, block_b, block_c], difficulty = Finite (9100 / 3),
      blockTimes = [0, 15], hashRate = Finite 200\<rparr>"

definition stats_fetched :: "string systemStats" where
  "stats_fetched =
     \<lparr>state = ''synchronising'', peerCount = 5, gasPrice = 30,
      latestBlocks = [block_a, block_b, block_c], difficulty = Finite (9100 / 3),
      blockTimes = [0, 15], hashRate = Finite 200\<rparr>"

definition stats_same_timestamps :: "string systemStats" where
  "stats_same_timestamps =
     \<lparr>state = ''synchronised'', peerCount = 8, gasPrice = 20,
      latestBlocks = [block_a, block_b], difficulty = Finite 3050,
      blockTimes = [0], hashRate = Finite 0\<rparr>"

definition stats_not_connected :: "string systemStats" where
  "stats_not_connected =
     \<lparr>state = ''Not connected'', peerCount = 0, gasPrice = 20,
      latestBlocks = [], difficulty = NaN, blockTimes = [], hashRate = Finite 0\<rparr>"

text \<open>Web3 objects and surroundings of the constructor.\<close>

definition local_node :: web3 where
  "local_node = \<lparr>endpoint = ''http://localhost:8645'', isConnected = True\<rparr>"

definition dead_node :: web3 where
  "dead_node = \<lparr>endpoint = ''http://localhost:9999'', isConnected = False\<rparr>"

definition metamask :: web3 where
  "metamask = \<lparr>endpoint = ''metamask'', isConnected = True\<rparr>"

definition browser :: surroundings where
  "browser =
     \<lparr>localStorage =
        Some (\<lambda>k. if k = ''mix-node-uri'' then Some ''http://localhost:9999'' else None),
      global_web3 = Some metamask,
      connect = (\<lambda>u. Inr (Some \<lparr>endpoint = u, isConnected = False\<rparr>))\<rparr>"

definition bare :: surroundings where
  "bare = \<lparr>localStorage = None, global_web3 = None, connect = (\<lambda>u. Inr None)\<rparr>"

section \<open>Auxiliary facts\<close>

subsection \<open>Joining promises\<close>

lemma earliest_None: "earliest rs = None \<longleftrightarrow> (\<forall>r \<in> set rs. r = None)"
  by (induction rs rule: earliest.induct) (auto split: option.splits if_splits)

lemma earliest_member: "earliest rs = Some x \<Longrightarrow> Some x \<in> set rs"
  by (induction rs rule: earliest.induct) (auto split: option.splits if_splits)

lemma earliest_least: "earliest rs = Some (t, e) \<Longrightarrow> Some (t', e') \<in> set rs \<Longrightarrow> t \<le> t'"
  by (induction rs arbitrary: t e rule: earliest.induct)
     (auto simp: earliest_None split: option.splits if_splits)

lemma rejection_Some: "Some (t, e) = rejection p \<longleftrightarrow> p = Rejected t e"
  by (cases p) auto

lemma Promise_all2_Rejected:
  "Promise_all2 p q = Rejected t e \<longleftrightarrow> earliest [rejection p, rejection q] = Some (t, e)"
  by (auto simp: Promise_all2_def split: option.splits promise.splits)

lemma Promise_all3_Rejected:
  "Promise_all3 p q r = Rejected t e \<longleftrightarrow>
     earliest [rejection p, rejection q, rejection r] = Some (t, e)"
  by (auto simp: Promise_all3_def split: option.splits promise.splits)

lemma Promise_all2_Fulfilled:
  "Promise_all2 p q = Fulfilled v \<longleftrightarrow> p = Fulfilled (fst v) \<and> q = Fulfilled (snd v)"
  by (cases p; cases q) (auto simp: Promise_all2_def split: option.splits if_splits)

lemma Promise_all3_Fulfilled:
  "Promise_all3 p q r = Fulfilled v \<longleftrightarrow>
     p = Fulfilled (fst v) \<and> q = Fulfilled (fst (snd v)) \<and> r = Fulfilled (snd (snd v))"
  by (cases p; cases q; cases r) (auto simp: Promise_all3_def split: option.splits if_splits)

lemma Promise_all2_values: "Promise_all2 (Fulfilled a) (Fulfilled b) = Fulfilled (a, b)"
  by (simp add: Promise_all2_def)

lemma Promise_all3_values:
  "Promise_all3 (Fulfilled a) (Fulfilled b) (Fulfilled c) = Fulfilled (a, b, c)"
  by (simp add: Promise_all3_def)

text \<open>A fulfilled third promise adds nothing to the outcome of the join.\<close>

lemma Promise_all3_third_fulfilled:
  "Promise_all3 p q (Fulfilled c) =
     (case Promise_all2 p q of
        Fulfilled (a, b) \<Rightarrow> Fulfilled (a, b, c)
      | Rejected t e \<Rightarrow> Rejected t e
      | Pending \<Rightarrow> Pending)"
  by (cases p; cases q) (simp_all add: Promise_all3_def Promise_all2_def)

subsection \<open>Search\<close>

lemma doSearch_Rejected:
  "doSearch ms q = Rejected t e \<longleftrightarrow>
     earliest [rejection (getBlock ms q), rejection (getBalance ms q),
               rejection (getTransaction ms q)] = Some (t, e)"
  by (auto simp: doSearch_def Promise_all3_Rejected [symmetric] split: promise.splits)

lemma doSearch_Fulfilled:
  "doSearch ms q = Fulfilled r \<longleftrightarrow>
     getBlock ms q = Fulfilled (block r) \<and> getBalance ms q = Fulfilled (account r)
     \<and> getTransaction ms q = Fulfilled (transaction r)"
proof -
  have "doSearch ms q = Fulfilled r \<longleftrightarrow>
      Promise_all3 (getBlock ms q) (getBalance ms q) (getTransaction ms q)
        = Fulfilled (block r, account r, transaction r)"
    by (auto simp: doSearch_def split: promise.splits)
  then show ?thesis by (simp add: Promise_all3_Fulfilled)
qed

subsection \<open>Chain identification\<close>

text \<open>
  With the identifying block fetched, a hash of the registry gives the entry's name, and a
  hash that is neither in the registry nor the name of an inherited member gives the
  sentinel. The promise is never rejected.
\<close>

lemma getBlockchainName_known:
  "client_getBlock ms (QNum 1920001) = Fulfilled (Some b) \<Longrightarrow>
   map_of blockchainHashes (hash b) = Some n \<Longrightarrow>
   getBlockchainName ms = Fulfilled (Name n)"
  by (simp add: getBlockchainName_def IDENTIFYING_BLOCK_def property_def)

lemma getBlockchainName_unknown:
  "client_getBlock ms (QNum 1920001) = Fulfilled (Some b) \<Longrightarrow>
   map_of blockchainHashes (hash b) = None \<Longrightarrow>
   hash b \<notin> set Object_prototype_keys \<Longrightarrow>
   getBlockchainName ms = Fulfilled (Name ''Unknown blockchain'')"
  by (simp add: getBlockchainName_def IDENTIFYING_BLOCK_def property_def)

lemma getBlockchainName_never_rejected: "getBlockchainName ms \<noteq> Rejected t e"
  by (simp add: getBlockchainName_def property_def split: promise.splits option.splits)

lemma getBlockchainName_no_block:
  "getBlockchainName search_nothing = Pending"
  by (simp add: getBlockchainName_def client_getBlock_def search_nothing_def)

subsection \<open>System statistics\<close>

lemma fill_eq:
  "fill st pc gp w s =
     (\<lparr>state = st, peerCount = pc, gasPrice = gp, latestBlocks = w,
       difficulty = averageDifficulty w, blockTimes = blockTimesOf w,
       hashRate = hashRateOf w\<rparr>, s\<lparr>window := w\<rparr>)"
  by (simp add: fill_def getAverageDifficulty_def getBlockTimes_def getHashRate_def)

lemma result_supplied:
  "getState nd = Fulfilled st \<Longrightarrow>
   result (getSystemStats nd s (Some w)) =
     (case Promise_all2 (getPeerCount nd) (getGasPrice nd) of
        Fulfilled (pc, gp) \<Rightarrow> Fulfilled (fst (fill st pc gp w s))
      | Rejected t e \<Rightarrow> Rejected t e
      | Pending \<Rightarrow> Pending)"
  by (simp add: getSystemStats_def fill_eq split: promise.splits prod.splits)

lemma result_fetched:
  "getState nd = Fulfilled st \<Longrightarrow>
   result (getSystemStats nd s None) =
     (case Promise_all3 (getPeerCount nd) (getGasPrice nd) (getLatestBlocks nd) of
        Fulfilled (pc, gp, w) \<Rightarrow>
          Fulfilled (fst (fill st pc gp w (fetched s (getLatestBlocks nd))))
      | Rejected t e \<Rightarrow> Rejected t e
      | Pending \<Rightarrow> Pending)"
  by (simp add: getSystemStats_def fill_eq split: promise.splits prod.splits)

lemma supplied_Rejected:
  "getState nd = Fulfilled st \<Longrightarrow>
   result (getSystemStats nd s (Some w)) = Rejected t e \<longleftrightarrow>
     earliest [rejection (getPeerCount nd), rejection (getGasPrice nd)] = Some (t, e)"
  by (auto simp: result_supplied Promise_all2_Rejected [symmetric] split: promise.splits)

lemma fetched_Rejected:
  "getState nd = Fulfilled st \<Longrightarrow>
   result (getSystemStats nd s None) = Rejected t e \<longleftrightarrow>
     earliest [rejection (getPeerCount nd), rejection (getGasPrice nd),
               rejection (getLatestBlocks nd)] = Some (t, e)"
  by (auto simp: result_fetched Promise_all3_Rejected [symmetric] split: promise.splits)

lemma supplied_Fulfilled:
  "getState nd = Fulfilled st \<Longrightarrow>
   result (getSystemStats nd s (Some w)) = Fulfilled stats \<longleftrightarrow>
     (\<exists>pc gp. getPeerCount nd = Fulfilled pc \<and> getGasPrice nd = Fulfilled gp
        \<and> stats = fst (fill st pc gp w s))"
  by (auto simp: result_supplied Promise_all2_Fulfilled Promise_all2_values
      split: promise.splits)

lemma fetched_Fulfilled:
  "getState nd = Fulfilled st \<Longrightarrow>
   result (getSystemStats nd s None) = Fulfilled stats \<longleftrightarrow>
     (\<exists>pc gp w. getPeerCount nd = Fulfilled pc \<and> getGasPrice nd = Fulfilled gp
        \<and> getLatestBlocks nd = Fulfilled w
        \<and> stats = fst (fill st pc gp w (fetched s (getLatestBlocks nd))))"
  by (auto simp: result_fetched Promise_all3_Fulfilled Promise_all3_values
      split: promise.splits)

lemma Fulfilled_needs_state:
  "result (getSystemStats nd s latest) = Fulfilled stats \<Longrightarrow> \<exists>st. getState nd = Fulfilled st"
  by (cases "getState nd") (simp_all add: getSystemStats_def)

text \<open>The metrics of a fulfilled run are those of the window in its statistics.\<close>

lemma Fulfilled_metrics:
  assumes "result (getSystemStats nd s latest) = Fulfilled stats"
  shows "difficulty stats = averageDifficulty (latestBlocks stats)
     \<and> blockTimes stats = blockTimesOf (latestBlocks stats)
     \<and> hashRate stats = hashRateOf (latestBlocks stats)"
proof -
  from Fulfilled_needs_state [OF assms] obtain st where st: "getState nd = Fulfilled st" ..
  from assms show ?thesis
    by (cases latest) (auto simp: fetched_Fulfilled [OF st] supplied_Fulfilled [OF st] fill_eq)
qed

lemma Fulfilled_window:
  assumes "result (getSystemStats nd s latest) = Fulfilled stats"
  shows "case latest of
           None \<Rightarrow> getLatestBlocks nd = Fulfilled (latestBlocks stats)
         | Some w \<Rightarrow> latestBlocks stats = w"
proof -
  from Fulfilled_needs_state [OF assms] obtain st where st: "getState nd = Fulfilled st" ..
  from assms show ?thesis
    by (cases latest) (auto simp: fetched_Fulfilled [OF st] supplied_Fulfilled [OF st] fill_eq)
qed

text \<open>The example runs.\<close>

lemma example_supplied:
  "result (getSystemStats node_synchronised holding_a (Some [block_a, block_b, block_c]))
     = Fulfilled stats_supplied"
  by (simp add: getSystemStats_def node_synchronised_def Promise_all2_def fill_eq
      stats_supplied_def averageDifficulty_def hashRateOf_def js_div_def
      block_a_def block_b_def block_c_def)

lemma example_fetched:
  "result (getSystemStats node_other no_blocks None) = Fulfilled stats_fetched"
  by (simp add: getSystemStats_def node_other_def Promise_all3_def fill_eq
      stats_fetched_def averageDifficulty_def hashRateOf_def js_div_def
      block_a_def block_b_def block_c_def)

lemma example_same_timestamps:
  "result (getSystemStats node_same_timestamps no_blocks None)
     = Fulfilled stats_same_timestamps"
  by (simp add: getSystemStats_def node_same_timestamps_def Promise_all3_def fill_eq
      stats_same_timestamps_def averageDifficulty_def hashRateOf_def js_div_def
      block_a_def block_b_def)

lemma example_not_connected:
  "result (getSystemStats node_state_not_connected no_blocks None)
     = Fulfilled stats_not_connected"
  by (simp add: getSystemStats_def node_state_not_connected_def Promise_all3_def fill_eq
      stats_not_connected_def averageDifficulty_def hashRateOf_def js_div_def)

text \<open>The spec's example of the average difficulty: 10, 20 and 30 give 20.\<close>

lemma averageDifficulty_example:
  "averageDifficulty
     [\<lparr>hash = ''0x1'', height = 1, timestamp = 0, blockDifficulty = 10\<rparr>,
      \<lparr>hash = ''0x2'', height = 2, timestamp = 9, blockDifficulty = 20\<rparr>,
      \<lparr>hash = ''0x3'', height = 3, timestamp = 20, blockDifficulty = 30\<rparr>] = Finite 20"
  by (simp add: averageDifficulty_def js_div_def)

lemma length_blockTimesOf: "length (blockTimesOf w) = length w - 1"
  by (induction w rule: blockTimesOf.induct) simp_all

subsection \<open>Construction\<close>

lemma test_connection_Inr:
  "fst (test_connection sur found evs) = Inr c \<Longrightarrow>
   isConnected (client_web3 c)
   \<and> (found = Some (client_web3 c) \<or> (found = None \<and> global_web3 sur = Some (client_web3 c)))"
  by (auto simp: test_connection_def split: option.splits if_splits)

lemma new_MixClient_Inr:
  "fst (new_MixClient sur uri w) = Inr c \<Longrightarrow>
   isConnected (client_web3 c)
   \<and> (w = Some (client_web3 c) \<or> global_web3 sur = Some (client_web3 c)
      \<or> (\<exists>u. connect sur u = Inr (Some (client_web3 c))))"
  by (auto simp: new_MixClient_def split: option.splits if_splits sum.splits prod.splits
      dest!: test_connection_Inr)

lemma test_connection_nothing:
  "global_web3 sur = None \<Longrightarrow>
   fst (test_connection sur None evs) = Inl (Error ''Not connected to network'')"
  by (simp add: test_connection_def)

section \<open>Search: failure policy and shape of the result\<close>

text \<open>
  C1, as the spec states it, does not hold: \<^verbatim>\<open>doSearch\<close> is said to fail only when all
  three lookups fail. Here the balance lookup alone is rejected while the block lookup
  finds a block and the transaction lookup finds nothing, and \<^verbatim>\<open>doSearch\<close> is rejected
  with the balance lookup's error.
\<close>

theorem doSearch_one_failure_counterexample:
  "doSearch search_balance_fails (QStr ''0xb10c'') = Rejected 0 (Error ''invalid address'')
   \<and> getBlock search_balance_fails (QStr ''0xb10c'') = Fulfilled (Some found_block)
   \<and> getTransaction search_balance_fails (QStr ''0xb10c'') = Fulfilled None"
  by (simp add: doSearch_def Promise_all3_def search_balance_fails_def)

text \<open>
  C1, amended. \<^verbatim>\<open>doSearch\<close> fails exactly when at least one of the three lookups is
  rejected, and then with the instant and error of a rejected lookup. A lookup that is
  fulfilled, with a value or with the \<^verbatim>\<open>null\<close> of nothing found, never makes it fail:
  when all three are fulfilled, the result holds each lookup's value in its own slot, so
  that with one lookup finding something and two finding nothing only that slot is
  populated.
\<close>

theorem doSearch_fails_iff_a_lookup_fails:
  "((\<exists>t e. doSearch ms q = Rejected t e) \<longleftrightarrow>
      (\<exists>t e. getBlock ms q = Rejected t e \<or> getBalance ms q = Rejected t e
              \<or> getTransaction ms q = Rejected t e))
   \<and> (doSearch ms q = Rejected t e \<longrightarrow>
        getBlock ms q = Rejected t e \<or> getBalance ms q = Rejected t e
        \<or> getTransaction ms q = Rejected t e)
   \<and> (getBlock ms q = Fulfilled b \<and> getBalance ms q = Fulfilled a
        \<and> getTransaction ms q = Fulfilled x \<longrightarrow>
      doSearch ms q = Fulfilled \<lparr>block = b, account = a, transaction = x\<rparr>)"
  (is "(?fails \<longleftrightarrow> ?some) \<and> (?rejected \<longrightarrow> ?origin) \<and> (?all \<longrightarrow> ?slots)")
proof (intro conjI)
  let ?rs = "[rejection (getBlock ms q), rejection (getBalance ms q),
              rejection (getTransaction ms q)]"
  show "?fails \<longleftrightarrow> ?some"
  proof
    assume ?fails
    then obtain t e where "earliest ?rs = Some (t, e)"
      by (auto simp: doSearch_Rejected)
    from earliest_member [OF this] show ?some
      by (auto simp: rejection_Some)
  next
    assume ?some
    then have "\<exists>r \<in> set ?rs. r \<noteq> None" by auto
    then have "earliest ?rs \<noteq> None" using earliest_None [of ?rs] by blast
    then show ?fails
      by (auto simp: doSearch_Rejected)
  qed
  show "?rejected \<longrightarrow> ?origin"
  proof
    assume ?rejected
    then have "earliest ?rs = Some (t, e)"
      by (simp add: doSearch_Rejected)
    from earliest_member [OF this] show ?origin
      by (auto simp: rejection_Some)
  qed
  show "?all \<longrightarrow> ?slots"
    by (simp add: doSearch_Fulfilled)
qed

text \<open>C1, amended, at a search that finds a block only, and at one whose balance lookup
  fails.\<close>

theorem doSearch_fails_iff_a_lookup_fails_witness:
  "getBlock search_block_only (QStr ''0xb10c'') = Fulfilled (Some found_block)
   \<and> getBalance search_block_only (QStr ''0xb10c'') = Fulfilled None
   \<and> getTransaction search_block_only (QStr ''0xb10c'') = Fulfilled None
   \<and> doSearch search_block_only (QStr ''0xb10c'')
       = Fulfilled \<lparr>block = Some found_block, account = None, transaction = None\<rparr>
   \<and> doSearch search_balance_fails (QStr ''0xb10c'') = Rejected 0 (Error ''invalid address'')
   \<and> getBalance search_balance_fails (QStr ''0xb10c'') = Rejected 0 (Error ''invalid address'')"
  using doSearch_fails_iff_a_lookup_fails
    [of search_block_only "QStr ''0xb10c''" 0 "Error []" "Some found_block" None None]
    doSearch_fails_iff_a_lookup_fails
    [of search_balance_fails "QStr ''0xb10c''" 0 "Error ''invalid address''"]
  by (simp add: search_block_only_def search_balance_fails_def doSearch_def Promise_all3_def)

text \<open>
  C9. Every result that \<^verbatim>\<open>doSearch\<close> is fulfilled with consists of the three slots
  \<^verbatim>\<open>block\<close>, \<^verbatim>\<open>account\<close> and \<^verbatim>\<open>transaction\<close>, each holding what its lookup was
  fulfilled with, be it \<^verbatim>\<open>null\<close>.
\<close>

theorem doSearch_result_has_three_slots:
  "doSearch ms q = Fulfilled r \<Longrightarrow>
     getBlock ms q = Fulfilled (block r) \<and> getBalance ms q = Fulfilled (account r)
     \<and> getTransaction ms q = Fulfilled (transaction r)
     \<and> r = \<lparr>block = block r, account = account r, transaction = transaction r\<rparr>"
  by (simp add: doSearch_Fulfilled)

text \<open>C9 at a search that finds nothing: the three slots are there, all empty.\<close>

theorem doSearch_result_has_three_slots_witness:
  "doSearch search_nothing (QStr ''0xb10c'')
     = Fulfilled \<lparr>block = None, account = None, transaction = None\<rparr>
   \<and> getBlock search_nothing (QStr ''0xb10c'') = Fulfilled None
   \<and> getBalance search_nothing (QStr ''0xb10c'') = Fulfilled None
   \<and> getTransaction search_nothing (QStr ''0xb10c'') = Fulfilled None"
proof -
  have "doSearch search_nothing (QStr ''0xb10c'')
      = Fulfilled \<lparr>block = None, account = None, transaction = None\<rparr>"
    by (simp add: doSearch_def Promise_all3_def search_nothing_def)
  from this doSearch_result_has_three_slots [OF this] show ?thesis by simp
qed

section \<open>Chain identification\<close>

text \<open>
  C4 says that a transport failure while fetching the identifying block propagates to the
  caller as an error. In the code it does not: with \<^verbatim>\<open>getBlock\<close> rejected, the promise
  of \<^verbatim>\<open>getBlockchainName\<close> is neither fulfilled nor rejected.
\<close>

theorem getBlockchainName_transport_failure_pending:
  "client_getBlock search_unreachable (QNum 1920001) = Rejected 0 (Error ''CONNECTION ERROR'')
   \<and> getBlockchainName search_unreachable = Pending"
  by (simp add: getBlockchainName_def client_getBlock_def search_unreachable_def)

section \<open>System statistics\<close>

text \<open>
  C2. Once the state is fetched, if the peer count, the gas price or (when no window was
  supplied) the window fetch is rejected, \<^verbatim>\<open>getSystemStats\<close> is rejected, with the error
  of a rejected fetch and no later than any of them. Whenever it is fulfilled, every
  fetched field of the statistics is the value its fetch was fulfilled with: no field is
  missing.
\<close>

theorem getSystemStats_atomic:
  "(getState nd = Fulfilled st \<and>
      (getPeerCount nd = Rejected t1 e1 \<or> getGasPrice nd = Rejected t1 e1
       \<or> (latest = None \<and> getLatestBlocks nd = Rejected t1 e1)) \<longrightarrow>
    (\<exists>t e. result (getSystemStats nd s latest) = Rejected t e \<and> t \<le> t1
       \<and> (getPeerCount nd = Rejected t e \<or> getGasPrice nd = Rejected t e
          \<or> (latest = None \<and> getLatestBlocks nd = Rejected t e))))
   \<and> (result (getSystemStats nd s latest) = Fulfilled stats \<longrightarrow>
        getState nd = Fulfilled (state stats)
        \<and> getPeerCount nd = Fulfilled (peerCount stats)
        \<and> getGasPrice nd = Fulfilled (gasPrice stats)
        \<and> (case latest of
              None \<Rightarrow> getLatestBlocks nd = Fulfilled (latestBlocks stats)
            | Some w \<Rightarrow> latestBlocks stats = w))"
  (is "(?fails \<longrightarrow> ?rejected) \<and> (?fulfilled \<longrightarrow> ?complete)")
proof (rule conjI; rule impI)
  assume a: ?fails
  then have st: "getState nd = Fulfilled st" by simp
  show ?rejected
  proof (cases latest)
    case None
    let ?rs = "[rejection (getPeerCount nd), rejection (getGasPrice nd),
                rejection (getLatestBlocks nd)]"
    from a None have mem: "Some (t1, e1) \<in> set ?rs" by auto
    then have "earliest ?rs \<noteq> None" by (simp only: earliest_None) blast
    then obtain t e where te: "earliest ?rs = Some (t, e)" by auto
    from earliest_least [OF te mem] have "t \<le> t1" .
    moreover from earliest_member [OF te]
    have "getPeerCount nd = Rejected t e \<or> getGasPrice nd = Rejected t e
          \<or> getLatestBlocks nd = Rejected t e"
      by (auto simp: rejection_Some)
    moreover from te have "result (getSystemStats nd s None) = Rejected t e"
      by (simp add: fetched_Rejected [OF st])
    ultimately show ?thesis using None by blast
  next
    case (Some w)
    let ?rs = "[rejection (getPeerCount nd), rejection (getGasPrice nd)]"
    from a Some have mem: "Some (t1, e1) \<in> set ?rs" by auto
    then have "earliest ?rs \<noteq> None" by (simp only: earliest_None) blast
    then obtain t e where te: "earliest ?rs = Some (t, e)" by auto
    from earliest_least [OF te mem] have "t \<le> t1" .
    moreover from earliest_member [OF te]
    have "getPeerCount nd = Rejected t e \<or> getGasPrice nd = Rejected t e"
      by (auto simp: rejection_Some)
    moreover from te have "result (getSystemStats nd s (Some w)) = Rejected t e"
      by (simp add: supplied_Rejected [OF st])
    ultimately show ?thesis using Some by blast
  qed
next
  assume f: ?fulfilled
  from Fulfilled_needs_state [OF f] obtain st' where st': "getState nd = Fulfilled st'" ..
  from f st' have "getState nd = Fulfilled (state stats)
      \<and> getPeerCount nd = Fulfilled (peerCount stats)
      \<and> getGasPrice nd = Fulfilled (gasPrice stats)"
    by (cases latest) (auto simp: fetched_Fulfilled [OF st'] supplied_Fulfilled [OF st'] fill_eq)
  with Fulfilled_window [OF f] show ?complete by simp
qed

text \<open>C2 at a node whose gas price fetch fails, and at a run that is fulfilled.\<close>

theorem getSystemStats_atomic_witness:
  "getState node_gas_fails = Fulfilled ''synchronised''
   \<and> getGasPrice node_gas_fails = Rejected 2 (Error ''CONNECTION TIMEOUT'')
   \<and> result (getSystemStats node_gas_fails no_blocks None)
       = Rejected 2 (Error ''CONNECTION TIMEOUT'')
   \<and> result (getSystemStats node_other no_blocks None) = Fulfilled stats_fetched
   \<and> getPeerCount node_other = Fulfilled (peerCount stats_fetched)
   \<and> getLatestBlocks node_other = Fulfilled (latestBlocks stats_fetched)"
  using getSystemStats_atomic
    [of node_gas_fails "''synchronised''" 2 "Error ''CONNECTION TIMEOUT''" None no_blocks]
    getSystemStats_atomic
    [of node_other "''synchronising''" 0 "Error []" None no_blocks stats_fetched]
    example_fetched
  by (auto simp: node_gas_fails_def)

text \<open>
  C3, as the spec states it, does not hold: a node that reports not connected is said to
  make \<^verbatim>\<open>getSystemStats\<close> fail with a connectivity error before any fetch is issued.
  When \<^verbatim>\<open>getState\<close> is rejected, the call does not fail: its promise stays pending.
  When \<^verbatim>\<open>getState\<close> is fulfilled with a state that says not connected, the three
  fetches are issued and the call is fulfilled.
\<close>

theorem getSystemStats_not_connected_counterexample:
  "getState node_state_rejected = Rejected 0 (Error ''Not connected'')
   \<and> result (getSystemStats node_state_rejected no_blocks None) = Pending
   \<and> getState node_state_not_connected = Fulfilled ''Not connected''
   \<and> issued (getSystemStats node_state_not_connected no_blocks None)
       = [GetState, GetPeerCount, GetGasPrice, GetLatestBlocks]
   \<and> result (getSystemStats node_state_not_connected no_blocks None)
       = Fulfilled stats_not_connected"
  by (simp add: example_not_connected)
     (simp add: getSystemStats_def node_state_rejected_def node_state_not_connected_def
        Promise_all3_def fill_eq)

text \<open>
  C3, amended. The state fetch strictly precedes the fan-out: the peer count, the gas
  price and (when no window was supplied) the window are fetched once \<^verbatim>\<open>getState\<close> is
  fulfilled, whatever state it is fulfilled with, and that state is what the statistics
  report; when \<^verbatim>\<open>getState\<close> is not fulfilled, none of them is fetched.
\<close>

theorem getSystemStats_fan_out_follows_state:
  "(getState nd = Fulfilled st \<longrightarrow>
      issued (getSystemStats nd s latest)
        = [GetState, GetPeerCount, GetGasPrice]
          @ (case latest of None \<Rightarrow> [GetLatestBlocks] | Some w \<Rightarrow> []))
   \<and> ((\<forall>st'. getState nd \<noteq> Fulfilled st') \<longrightarrow>
        issued (getSystemStats nd s latest) = [GetState])
   \<and> (result (getSystemStats nd s latest) = Fulfilled stats \<longrightarrow>
        getState nd = Fulfilled (state stats))"
  (is "(?has_state \<longrightarrow> ?all) \<and> (?no_state \<longrightarrow> ?none) \<and> (?fulfilled \<longrightarrow> ?stored)")
proof (intro conjI; rule impI)
  assume ?has_state
  then show ?all
    by (simp add: getSystemStats_def fill_eq split: option.splits promise.splits prod.splits)
next
  assume ?no_state
  then show ?none
    by (cases "getState nd") (simp_all add: getSystemStats_def)
next
  assume f: ?fulfilled
  from Fulfilled_needs_state [OF f] obtain st' where st': "getState nd = Fulfilled st'" ..
  with f show ?stored
    by (cases latest) (auto simp: fetched_Fulfilled [OF st'] supplied_Fulfilled [OF st'] fill_eq)
qed

text \<open>C3, amended, at a node whose state says not connected and at one whose state fetch
  is rejected.\<close>

theorem getSystemStats_fan_out_follows_state_witness:
  "getState node_state_not_connected = Fulfilled ''Not connected''
   \<and> issued (getSystemStats node_state_not_connected no_blocks None)
       = [GetState, GetPeerCount, GetGasPrice, GetLatestBlocks]
   \<and> result (getSystemStats node_state_not_connected no_blocks None)
       = Fulfilled stats_not_connected
   \<and> getState node_state_not_connected = Fulfilled (state stats_not_connected)
   \<and> (\<forall>st'. getState node_state_rejected \<noteq> Fulfilled st')
   \<and> issued (getSystemStats node_state_rejected no_blocks None) = [GetState]"
proof -
  have has_state: "getState node_state_not_connected = Fulfilled ''Not connected''"
    by (simp add: node_state_not_connected_def)
  have no_state: "\<forall>st'. getState node_state_rejected \<noteq> Fulfilled st'"
    by (simp add: node_state_rejected_def)
  note at_not_connected = getSystemStats_fan_out_follows_state
    [of node_state_not_connected "''Not connected''" no_blocks None stats_not_connected]
  note at_rejected = getSystemStats_fan_out_follows_state
    [of node_state_rejected "''Not connected''" no_blocks None stats_not_connected]
  from at_not_connected has_state
  have "issued (getSystemStats node_state_not_connected no_blocks None)
       = [GetState, GetPeerCount, GetGasPrice, GetLatestBlocks]" by simp
  moreover from at_not_connected example_not_connected
  have "getState node_state_not_connected = Fulfilled (state stats_not_connected)" by simp
  moreover from at_rejected no_state
  have "issued (getSystemStats node_state_rejected no_blocks None) = [GetState]" by blast
  ultimately show ?thesis using has_state no_state example_not_connected by blast
qed

text \<open>
  C5. For every window \<open>w\<close>, a call of \<^verbatim>\<open>getSystemStats\<close> that is handed \<open>w\<close> and a
  call that fetches \<open>w\<close> return the same average difficulty, block times and hash rate,
  whatever window the statistics object held before and whatever the other fetches
  return; against the same node the two calls return the same promise altogether.
\<close>

theorem getSystemStats_supplied_window_same_metrics:
  "(getLatestBlocks nd' = Fulfilled w
      \<and> result (getSystemStats nd s (Some w)) = Fulfilled a
      \<and> result (getSystemStats nd' s' None) = Fulfilled b \<longrightarrow>
    difficulty a = difficulty b \<and> blockTimes a = blockTimes b \<and> hashRate a = hashRate b)
   \<and> (getLatestBlocks nd = Fulfilled w \<longrightarrow>
        result (getSystemStats nd s (Some w)) = result (getSystemStats nd s' None))"
  (is "(?both \<longrightarrow> ?same) \<and> (?fetch \<longrightarrow> ?equal)")
proof (rule conjI; rule impI)
  assume h: ?both
  then have a: "result (getSystemStats nd s (Some w)) = Fulfilled a"
    and b: "result (getSystemStats nd' s' None) = Fulfilled b"
    and w: "getLatestBlocks nd' = Fulfilled w" by simp_all
  from Fulfilled_window [OF a] have "latestBlocks a = w" by simp
  moreover from Fulfilled_window [OF b] w have "latestBlocks b = w" by simp
  ultimately show ?same
    using Fulfilled_metrics [OF a] Fulfilled_metrics [OF b] by simp
next
  assume w: ?fetch
  show ?equal
  proof (cases "getState nd")
    case (Fulfilled st)
    then show ?thesis
      by (simp add: result_supplied [OF Fulfilled] result_fetched [OF Fulfilled] w fill_eq
          Promise_all3_third_fulfilled split: promise.splits)
  qed (simp_all add: getSystemStats_def)
qed

text \<open>C5 at a window of three blocks, handed to one node's client and fetched from
  another node.\<close>

theorem getSystemStats_supplied_window_same_metrics_witness:
  "getLatestBlocks node_other = Fulfilled [block_a, block_b, block_c]
   \<and> result (getSystemStats node_synchronised holding_a (Some [block_a, block_b, block_c]))
       = Fulfilled stats_supplied
   \<and> result (getSystemStats node_other no_blocks None) = Fulfilled stats_fetched
   \<and> difficulty stats_supplied = difficulty stats_fetched
   \<and> blockTimes stats_supplied = blockTimes stats_fetched
   \<and> hashRate stats_supplied = hashRate stats_fetched
   \<and> result (getSystemStats node_other holding_a (Some [block_a, block_b, block_c]))
       = result (getSystemStats node_other no_blocks None)"
  using getSystemStats_supplied_window_same_metrics
    [of node_other "[block_a, block_b, block_c]" node_synchronised holding_a
        stats_supplied no_blocks stats_fetched]
    getSystemStats_supplied_window_same_metrics
    [of node_other "[block_a, block_b, block_c]" node_other holding_a
        stats_supplied no_blocks stats_fetched]
    example_supplied example_fetched
  by (simp add: node_other_def)

text \<open>
  C6. For every window \<open>w\<close>, \<^verbatim>\<open>updateBlocks\<close> leaves \<open>w\<close> as the window the
  statistics object holds and returns what \<^verbatim>\<open>getSystemStats\<close> returns when handed
  \<open>w\<close>: the same promise, after the same fetches.
\<close>

theorem updateBlocks_replaces_window:
  "window (aggregator (updateBlocks nd s w)) = w
   \<and> result (updateBlocks nd s w) = result (getSystemStats nd s (Some w))
   \<and> issued (updateBlocks nd s w) = issued (getSystemStats nd s (Some w))
   \<and> console (updateBlocks nd s w) = console (getSystemStats nd s (Some w))"
  by (cases "getState nd"; cases "Promise_all2 (getPeerCount nd) (getGasPrice nd)")
     (auto simp: updateBlocks_def setLatestBlocks_def getSystemStats_def fill_eq)

text \<open>C6 at a statistics object that held one block and is handed three.\<close>

theorem updateBlocks_replaces_window_witness:
  "window (aggregator (updateBlocks node_synchronised holding_a [block_a, block_b, block_c]))
     = [block_a, block_b, block_c]
   \<and> result (updateBlocks node_synchronised holding_a [block_a, block_b, block_c])
       = Fulfilled stats_supplied"
  using updateBlocks_replaces_window
    [of node_synchronised holding_a "[block_a, block_b, block_c]"]
    example_supplied
  by simp

text \<open>
  C8. Whenever \<^verbatim>\<open>getSystemStats\<close> is fulfilled with statistics whose window has fewer
  than two blocks, or whose most recent block time is zero, the hash rate in them is
  zero: it is neither \<^verbatim>\<open>Infinity\<close> nor \<^verbatim>\<open>NaN\<close>.
\<close>

theorem getSystemStats_hash_rate_zero_guard:
  "result (getSystemStats nd s latest) = Fulfilled stats \<Longrightarrow>
   length (latestBlocks stats) < 2
     \<or> (blockTimes stats \<noteq> [] \<and> last (blockTimes stats) = 0) \<Longrightarrow>
   hashRate stats = Finite 0 \<and> hashRate stats \<noteq> Infinity \<and> hashRate stats \<noteq> NaN"
proof -
  assume f: "result (getSystemStats nd s latest) = Fulfilled stats"
    and g: "length (latestBlocks stats) < 2
     \<or> (blockTimes stats \<noteq> [] \<and> last (blockTimes stats) = 0)"
  from Fulfilled_metrics [OF f] g show ?thesis by (auto simp: hashRateOf_def)
qed

text \<open>C8 at a window whose two blocks have the same timestamp.\<close>

theorem getSystemStats_hash_rate_zero_guard_witness:
  "result (getSystemStats node_same_timestamps no_blocks None) = Fulfilled stats_same_timestamps
   \<and> blockTimes stats_same_timestamps \<noteq> []
   \<and> last (blockTimes stats_same_timestamps) = 0
   \<and> hashRate stats_same_timestamps = Finite 0"
proof -
  have g: "length (latestBlocks stats_same_timestamps) < 2
     \<or> (blockTimes stats_same_timestamps \<noteq> [] \<and> last (blockTimes stats_same_timestamps) = 0)"
    by (simp add: stats_same_timestamps_def)
  from getSystemStats_hash_rate_zero_guard [OF example_same_timestamps g]
    example_same_timestamps
  show ?thesis by (simp add: stats_same_timestamps_def)
qed

section \<open>Construction of the client\<close>

text \<open>
  C7. A client that has been constructed holds a web3 object that answered connected.
  Construction throws when no source yields a web3 object, and when every web3 object on
  offer answers not connected.
\<close>

theorem new_MixClient_connected_or_throws:
  "(fst (new_MixClient sur uri w) = Inr c \<longrightarrow> isConnected (client_web3 c))
   \<and> (w = None \<and> global_web3 sur = None \<and> (\<forall>u. connect sur u = Inr None) \<longrightarrow>
        fst (new_MixClient sur uri w) = Inl (Error ''Not connected to network''))
   \<and> ((\<forall>x. w = Some x \<longrightarrow> \<not> isConnected x)
        \<and> (\<forall>x. global_web3 sur = Some x \<longrightarrow> \<not> isConnected x)
        \<and> (\<forall>u x. connect sur u = Inr (Some x) \<longrightarrow> \<not> isConnected x) \<longrightarrow>
      (\<exists>e. fst (new_MixClient sur uri w) = Inl e))"
  (is "(?made \<longrightarrow> ?live) \<and> (?nothing \<longrightarrow> ?thrown) \<and> (?all_dead \<longrightarrow> ?fails)")
proof (intro conjI; rule impI)
  assume ?made
  from new_MixClient_Inr [OF this] show ?live by simp
next
  assume ?nothing
  then show ?thrown
    by (auto simp: new_MixClient_def test_connection_nothing
        split: option.splits if_splits sum.splits prod.splits)
next
  assume dead: ?all_dead
  show ?fails
  proof (cases "fst (new_MixClient sur uri w)")
    case (Inl e)
    then show ?thesis by blast
  next
    case (Inr c)
    from new_MixClient_Inr [OF this] dead show ?thesis by blast
  qed
qed

text \<open>C7 with a connected web3 object handed over, with no provider anywhere, and with
  a web3 object that is not connected.\<close>

theorem new_MixClient_connected_or_throws_witness:
  "fst (new_MixClient bare None (Some local_node)) = Inr \<lparr>client_web3 = local_node\<rparr>
   \<and> isConnected local_node
   \<and> global_web3 bare = None \<and> (\<forall>u. connect bare u = Inr None)
   \<and> fst (new_MixClient bare (Some ''http://localhost:8645'') None)
       = Inl (Error ''Not connected to network'')
   \<and> \<not> isConnected dead_node
   \<and> (\<exists>e. fst (new_MixClient bare None (Some dead_node)) = Inl e)"
proof -
  have made: "fst (new_MixClient bare None (Some local_node)) = Inr \<lparr>client_web3 = local_node\<rparr>"
    by (simp add: new_MixClient_def test_connection_def bare_def local_node_def truthy_def)
  have unprovided: "global_web3 bare = None \<and> (\<forall>u. connect bare u = Inr None)"
    by (simp add: bare_def)
  have dead: "\<not> isConnected dead_node"
    by (simp add: dead_node_def)
  from made new_MixClient_connected_or_throws
    [of bare None "Some local_node" "\<lparr>client_web3 = local_node\<rparr>"]
  have "isConnected local_node" by simp
  moreover from unprovided new_MixClient_connected_or_throws
    [of bare "Some ''http://localhost:8645''" None "\<lparr>client_web3 = local_node\<rparr>"]
  have "fst (new_MixClient bare (Some ''http://localhost:8645'') None)
       = Inl (Error ''Not connected to network'')" by simp
  moreover from unprovided dead new_MixClient_connected_or_throws
    [of bare None "Some dead_node" "\<lparr>client_web3 = local_node\<rparr>"]
  have "\<exists>e. fst (new_MixClient bare None (Some dead_node)) = Inl e" by auto
  ultimately show ?thesis using made unprovided dead by simp
qed

text \<open>
  C10. When a web3 object is handed to the constructor, the client is built on that
  object, or the constructor throws if the object answers not connected; no connection
  to a node URI is attempted and the global web3 is not consulted.
\<close>

theorem new_MixClient_uses_supplied_web3:
  "fst (new_MixClient sur uri (Some w))
     = (if isConnected w then Inr \<lparr>client_web3 = w\<rparr>
        else Inl (Error ''Not connected to network''))
   \<and> GlobalRead \<notin> set (snd (new_MixClient sur uri (Some w)))
   \<and> (\<forall>u. ConnectAttempt u \<notin> set (snd (new_MixClient sur uri (Some w))))"
  by (auto simp: new_MixClient_def test_connection_def
      split: option.splits if_splits sum.splits prod.splits)

text \<open>C10 in a browser with a stored node URI and an injected web3: the object handed over
  is the one used.\<close>

theorem new_MixClient_uses_supplied_web3_witness:
  "fst (new_MixClient browser (Some ''http://localhost:9999'') (Some local_node))
     = Inr \<lparr>client_web3 = local_node\<rparr>
   \<and> GlobalRead \<notin> set (snd (new_MixClient browser None (Some local_node)))"
  using new_MixClient_uses_supplied_web3 [of browser "Some ''http://localhost:9999''" local_node]
    new_MixClient_uses_supplied_web3 [of browser None local_node]
  by (simp add: local_node_def)

end
